theory Spec2Isabelle
  imports Main "HOL-Library.DAList"
begin

section \<open>Symbiosome: the message-routing engine of \<^verbatim>\<open>src/symbiosome.ts\<close>\<close>

text \<open>
  The class \<^verbatim>\<open>Symbiosome\<close> keeps two registries keyed by origin (listeners and
  portals), receives messages from the window and from a broadcast channel, and pushes
  messages either to the broadcast channel or to the window of a portal's iframe.

  The embedding is explicit state passing. Every method takes the host environment, the
  configuration object, and the instance state, and returns a triple: the outcome
  (\<open>Inl\<close> an error for every \<^verbatim>\<open>throw\<close>, \<open>Inr\<close> for a normal return), the state
  at the moment the method returns or throws, and the list of effects on the outside
  world in the order they happen (debug calls, channel posts, handler and callback
  invocations, window posts).

  The boundary of the model:
  \<^item> Handlers and callbacks are functions supplied by the caller. They are identified by
    a number; invoking one is an effect in the trace. What a handler does when it runs
    (throwing, or calling back into the instance) is the caller's code and not modelled.
  \<^item> The platform (\<^verbatim>\<open>URL\<close>, \<^verbatim>\<open>window\<close>, \<^verbatim>\<open>iframe.contentWindow\<close>) is a parameter,
    the record \<open>environment\<close>. \<^verbatim>\<open>postMessage\<close> and DOM insertion are taken to return
    normally.
  \<^item> The registries are plain objects, so a property read \<^verbatim>\<open>obj[key]\<close> also sees the
    names inherited from \<^verbatim>\<open>Object.prototype\<close>. \<^verbatim>\<open>pushToOrigin\<close>,
    \<^verbatim>\<open>removePortal\<close> and \<^verbatim>\<open>removeListener\<close> use the caller's string as the key
    without normalising it, and their model is the full property read (\<open>property_read\<close>).
    Everywhere else the key is a serialised origin (\<^verbatim>\<open>scheme://host:port\<close> or
    \<^verbatim>\<open>null\<close>): the value of \<^verbatim>\<open>URL.origin\<close>, of \<^verbatim>\<open>window.origin\<close>, of the origin
    of a \<^verbatim>\<open>MessageEvent\<close>, or the origin tag that \<^verbatim>\<open>broadcast\<close> has put on a message
    of the channel. No inherited name is a serialised origin, so there the read is the
    lookup of an own property.
  \<^item> The message payload is opaque (\<^verbatim>\<open>unknown\<close> in the source): a type variable.
    It stands for the literals and structured data the source documents as messages,
    which \<^verbatim>\<open>postMessage\<close> can clone.
\<close>

subsection \<open>Data\<close>

type_synonym origin = string

datatype handler = Handler nat

datatype callback = Callback nat

datatype window = Window nat

text \<open>
  A parsed \<^verbatim>\<open>URL\<close>: its origin, its query parameters, and the rest of the href.
\<close>

record url =
  url_origin :: origin
  url_base :: string
  searchParams :: "(string \<times> string) list"

text \<open>The hidden iframe built by \<^verbatim>\<open>createFrame\<close>; \<open>frame_id\<close> is the object's identity.\<close>

record iframe =
  frame_id :: nat
  frame_name :: string
  frame_width :: string
  frame_height :: string
  style_visibility :: string
  style_position :: string
  frame_src :: "url option"

text \<open>\<^verbatim>\<open>interface Portal { frame; window }\<close>: \<open>frame\<close> refers to the iframe by identity.\<close>

record portal =
  frame :: nat
  window :: window

text \<open>\<^verbatim>\<open>interface SymbiosomeContext\<close>: every callback is optional.\<close>

record symbiosomeContext =
  isPortal :: bool
  onPortalAdded :: "callback option"
  onListenToOrigin :: "callback option"
  onPushedMessage :: "callback option"
  onPortalRemoved :: "callback option"
  onListenerRemoved :: "callback option"
  debug :: "callback option"

text \<open>
  What the instance reads from the platform: \<^verbatim>\<open>window.origin\<close>,
  \<^verbatim>\<open>window.location.origin\<close>, the parameters of \<^verbatim>\<open>window.location.search\<close>,
  \<^verbatim>\<open>window.parent\<close>, the \<^verbatim>\<open>URL\<close> constructor (\<open>None\<close> where it throws a
  \<^verbatim>\<open>TypeError\<close>), and \<^verbatim>\<open>frame.contentWindow\<close> (\<open>None\<close> for \<^verbatim>\<open>null\<close>).
\<close>

record environment =
  window_origin :: origin
  location_origin :: origin
  location_search :: "(string \<times> string) list"
  window_parent :: window
  new_URL :: "string \<Rightarrow> url option"
  contentWindow :: "iframe \<Rightarrow> window option"

text \<open>
  The private fields of the instance, the two event-listener registrations made by the
  constructor, and the iframes the instance has appended to \<^verbatim>\<open>document.body\<close>.
\<close>

record state =
  listeners :: "(origin, handler) alist"
  portals :: "(origin, portal) alist"
  parent :: "window option"
  parentOrigin :: "origin option"
  broadcastChannel :: string
  channelID :: string
  window_listening :: bool
  channel_listening :: bool
  document_body :: "iframe list"
  frames_created :: nat

text \<open>The data handed to the debug function.\<close>

datatype 'm datum =
    Text string
  | Null
  | MessageEvent origin 'm
  | BroadcastEvent origin 'm

datatype 'm event =
    Debug callback string "'m datum list option"
  | Publish string origin 'm
  | Deliver handler origin 'm
  | Notify callback origin
  | NotifyPushed callback origin 'm
  | PostMessage window 'm origin

text \<open>
  One constructor for each \<^verbatim>\<open>throw\<close> of the source, one for the \<^verbatim>\<open>TypeError\<close> of
  the \<^verbatim>\<open>URL\<close> constructor, and one for the \<^verbatim>\<open>TypeError\<close> of calling a method on
  \<^verbatim>\<open>undefined\<close> (the argument is the name of the method).
\<close>

datatype error =
    InvalidURL string
  | ListenerExists origin
  | PortalIsOwnOrigin origin
  | PortalConnected origin
  | NoReference origin
  | PushMissingPortal origin
  | RemoveOwnOrigin origin
  | RemoveMissingPortal origin
  | RemoveMissingListener origin
  | ReadOfUndefined string

fun error_message :: "error \<Rightarrow> string" where
  "error_message (InvalidURL u) = ''Invalid URL''"
| "error_message (ListenerExists orig) = ''Listener for '' @ orig @ '' already exists.''"
| "error_message (PortalIsOwnOrigin orig) =
     ''Portal '' @ orig @ '' is own origin and is always connected.''"
| "error_message (PortalConnected orig) = ''Portal '' @ orig @ '' already connected.''"
| "error_message (NoReference orig) = ''Couldn't get reference for '' @ orig @ ''.''"
| "error_message (PushMissingPortal orig) = ''Cannot push to missing portal '' @ orig @ ''.''"
| "error_message (RemoveOwnOrigin orig) =
     ''Origin '' @ orig @ '' is this origin, removal not possible.''"
| "error_message (RemoveMissingPortal orig) = ''Cannot remove missing portal '' @ orig @ ''.''"
| "error_message (RemoveMissingListener orig) =
     ''Cannot remove missing listener '' @ orig @ ''.''"
| "error_message (ReadOfUndefined m) =
     ''Cannot read properties of undefined (reading '' @ m @ '')''"

text \<open>The names the specification gives to the failures (its section 7).\<close>

datatype error_kind =
  TypeError | DuplicateOrigin | SelfOrigin | NotFound | PortalNotFound | TransportUnavailable

fun kind :: "error \<Rightarrow> error_kind" where
  "kind (InvalidURL u) = TypeError"
| "kind (ListenerExists orig) = DuplicateOrigin"
| "kind (PortalIsOwnOrigin orig) = SelfOrigin"
| "kind (PortalConnected orig) = DuplicateOrigin"
| "kind (NoReference orig) = TransportUnavailable"
| "kind (PushMissingPortal orig) = PortalNotFound"
| "kind (RemoveOwnOrigin orig) = SelfOrigin"
| "kind (RemoveMissingPortal orig) = NotFound"
| "kind (RemoveMissingListener orig) = NotFound"
| "kind (ReadOfUndefined m) = TypeError"

type_synonym 'm result = "(error + unit) \<times> state \<times> 'm event list"

definition outcome :: "'m result \<Rightarrow> error + unit" where
  "outcome r = fst r"

definition post :: "'m result \<Rightarrow> state" where
  "post r = fst (snd r)"

definition effects :: "'m result \<Rightarrow> 'm event list" where
  "effects r = snd (snd r)"

subsection \<open>Plain objects used as dictionaries\<close>

text \<open>
  A JavaScript object with string keys is an association list with distinct keys, in
  insertion order: \<^verbatim>\<open>obj[k] = v\<close> replaces the value in place or appends the entry
  (\<open>DAList.update\<close>), \<^verbatim>\<open>delete obj[k]\<close> drops it (\<open>DAList.delete\<close>),
  \<^verbatim>\<open>Object.keys\<close> lists the keys, and \<^verbatim>\<open>Object.assign\<close> copies the entries of the
  source into the target one after the other. (JavaScript lists keys that are array
  indices first; a serialised origin is never one, and no property below depends on the
  order of the keys.)
\<close>

definition object_keys :: "('k, 'v) alist \<Rightarrow> 'k list" where
  "object_keys obj = map fst (DAList.impl_of obj)"

definition object_assign :: "('k, 'v) alist \<Rightarrow> ('k, 'v) alist \<Rightarrow> ('k, 'v) alist" where
  "object_assign target source =
     fold (\<lambda>(k, v). DAList.update k v) (DAList.impl_of source) target"

lift_definition object_values :: "('v \<Rightarrow> 'w) \<Rightarrow> ('k, 'v) alist \<Rightarrow> ('k, 'w) alist"
  is "\<lambda>f. AList.map_ran (\<lambda>_. f)"
  by (simp add: distinct_map_ran)

text \<open>
  The objects are created by \<^verbatim>\<open>{}\<close>, so their prototype is \<^verbatim>\<open>Object.prototype\<close>.
  These are its property names; eleven are functions and \<^verbatim>\<open>__proto__\<close> is an accessor
  that returns \<^verbatim>\<open>Object.prototype\<close> itself, so each of them reads as a truthy value
  that has no property \<^verbatim>\<open>window\<close> or \<^verbatim>\<open>frame\<close>.
\<close>

definition object_prototype_names :: "string list" where
  "object_prototype_names =
    [''constructor'', ''__defineGetter__'', ''__defineSetter__'', ''hasOwnProperty'',
     ''__lookupGetter__'', ''__lookupSetter__'', ''isPrototypeOf'', ''propertyIsEnumerable'',
     ''toString'', ''valueOf'', ''__proto__'', ''toLocaleString'']"

text \<open>
  The value of \<^verbatim>\<open>obj[key]\<close>: the own property if there is one (it shadows the
  prototype), else the inherited member, else \<^verbatim>\<open>undefined\<close>.
\<close>

datatype 'v property = Own 'v | Inherited | Undefined

definition property_read :: "(string, 'v) alist \<Rightarrow> string \<Rightarrow> 'v property" where
  "property_read obj k =
    (case DAList.lookup obj k of
       Some v \<Rightarrow> Own v
     | None \<Rightarrow> if k \<in> set object_prototype_names then Inherited else Undefined)"

text \<open>
  The serialisation of an origin is \<^verbatim>\<open>null\<close> (an opaque origin) or
  \<^verbatim>\<open>scheme://host\<close>, with \<^verbatim>\<open>:port\<close> where the port is not the default one. The
  predicate keeps the part of this shape that matters here: the string is \<^verbatim>\<open>null\<close> or
  \<^verbatim>\<open>://\<close> occurs in it. It holds of every serialised origin.
\<close>

fun has_separator :: "string \<Rightarrow> bool" where
  "has_separator (a # b # c # cs) =
     ((a = CHR '':'' \<and> b = CHR ''/'' \<and> c = CHR ''/'') \<or> has_separator (b # c # cs))"
| "has_separator cs = False"

definition serialised_origin :: "string \<Rightarrow> bool" where
  "serialised_origin x = (x = ''null'' \<or> has_separator x)"

subsection \<open>Small pieces of the language and the platform\<close>

text \<open>\<^verbatim>\<open>a ?? b\<close>\<close>

definition coalesce :: "'a option \<Rightarrow> 'a option \<Rightarrow> 'a option" where
  "coalesce a b = (case a of Some x \<Rightarrow> Some x | None \<Rightarrow> b)"

text \<open>\<^verbatim>\<open>cb?.( origin )\<close> and \<^verbatim>\<open>cb?.( origin, message )\<close>\<close>

definition notify :: "callback option \<Rightarrow> origin \<Rightarrow> 'm event list" where
  "notify cb orig = (case cb of None \<Rightarrow> [] | Some c \<Rightarrow> [Notify c orig])"

definition notify_pushed :: "callback option \<Rightarrow> origin \<Rightarrow> 'm \<Rightarrow> 'm event list" where
  "notify_pushed cb orig m = (case cb of None \<Rightarrow> [] | Some c \<Rightarrow> [NotifyPushed c orig m])"

text \<open>\<^verbatim>\<open>this.context.debug?.( message, data )\<close>\<close>

definition debug_call ::
  "symbiosomeContext \<Rightarrow> string \<Rightarrow> 'm datum list option \<Rightarrow> 'm event list" where
  "debug_call ctx text data = (case debug ctx of None \<Rightarrow> [] | Some d \<Rightarrow> [Debug d text data])"

text \<open>\<^verbatim>\<open>URLSearchParams.get\<close>: the first value of the name, or \<^verbatim>\<open>null\<close>.\<close>

definition params_get :: "(string \<times> string) list \<Rightarrow> string \<Rightarrow> string option" where
  "params_get ps n = map_of ps n"

text \<open>
  \<^verbatim>\<open>URLSearchParams.set\<close>: the first entry of the name takes the value and the other
  entries of the name are removed; without such an entry the pair is appended.
\<close>

fun params_set :: "(string \<times> string) list \<Rightarrow> string \<Rightarrow> string \<Rightarrow> (string \<times> string) list" where
  "params_set [] n v = [(n, v)]"
| "params_set ((k, x) # ps) n v =
     (if k = n then (n, v) # filter (\<lambda>p. fst p \<noteq> n) ps else (k, x) # params_set ps n v)"

text \<open>\<^verbatim>\<open>!parent\<close> for a value that is a string or \<^verbatim>\<open>null\<close>.\<close>

definition falsy :: "string option \<Rightarrow> bool" where
  "falsy p = (p = None \<or> p = Some [])"

text \<open>The text a template literal prints for a string that may be \<^verbatim>\<open>undefined\<close>.\<close>

definition printed :: "string option \<Rightarrow> string" where
  "printed p = (case p of None \<Rightarrow> ''undefined'' | Some x \<Rightarrow> x)"

subsection \<open>The class\<close>

text \<open>
  The constructor. All of it is in one definition, in the order of the source: the
  registries, the channel id, the portal-mode block that reads the \<^verbatim>\<open>parent\<close>
  parameter, the broadcast channel, and the announcement of the own origin.
\<close>

definition "constructor" :: "environment \<Rightarrow> symbiosomeContext \<Rightarrow> 'm result" where
  "constructor env ctx =
    (let cid = ''symbiosome__'' @ location_origin env;
         t0 = debug_call ctx ''Channel ID'' (Some [Text cid]);
         param = params_get (location_search env) ''parent'';
         par = (if isPortal ctx
                then (if falsy param \<or> param = Some (window_origin env)
                      then None else Some (window_parent env))
                else None);
         par_origin = (if isPortal ctx
                       then (if par \<noteq> None \<and> \<not> falsy param then param else None)
                       else None);
         t1 = (if isPortal ctx
               then debug_call ctx ''Parent origin''
                      (Some [case param of None \<Rightarrow> Null | Some p \<Rightarrow> Text p])
                    @ (if par_origin = None
                       then debug_call ctx ''Is portal but parent is undefined'' None
                       else [])
               else []);
         s = \<lparr> listeners = DAList.empty,
               portals = DAList.empty,
               parent = par,
               parentOrigin = par_origin,
               broadcastChannel = cid,
               channelID = cid,
               window_listening = isPortal ctx,
               channel_listening = True,
               document_body = [],
               frames_created = 0 \<rparr>
     in (Inr (), s, t0 @ t1 @ notify (onPortalAdded ctx) (window_origin env)))"

text \<open>
  A message of the channel is the envelope \<open>{origin, data}\<close> that \<^verbatim>\<open>broadcast\<close> has
  posted; its origin tag is a serialised origin.
\<close>

definition handleBroadcast :: "symbiosomeContext \<Rightarrow> state \<Rightarrow> origin \<times> 'm \<Rightarrow> 'm result" where
  "handleBroadcast ctx s ev =
    (let t0 = debug_call ctx ''Incoming broadcast'' (Some [BroadcastEvent (fst ev) (snd ev)])
     in case DAList.lookup (listeners s) (fst ev) of
          None \<Rightarrow>
            (Inr (), s,
             t0 @ debug_call ctx ''Broadcast received from unlisted origin''
                    (Some [BroadcastEvent (fst ev) (snd ev)]))
        | Some h \<Rightarrow> (Inr (), s, t0 @ [Deliver h (fst ev) (snd ev)]))"

definition broadcast :: "state \<Rightarrow> origin \<Rightarrow> 'm \<Rightarrow> 'm event list" where
  "broadcast s orig data =
     Publish (broadcastChannel s) orig data #
     (case DAList.lookup (listeners s) orig of
        None \<Rightarrow> []
      | Some h \<Rightarrow> [Deliver h orig data])"

definition handlePortalMessage :: "symbiosomeContext \<Rightarrow> state \<Rightarrow> origin \<times> 'm \<Rightarrow> 'm result" where
  "handlePortalMessage ctx s ev =
    (let t0 = debug_call ctx ''Incoming message'' (Some [MessageEvent (fst ev) (snd ev)])
     in if Some (fst ev) \<noteq> parentOrigin s
        then (Inr (), s,
              t0 @ debug_call ctx
                     (''Incoming message from '' @ fst ev @ '' not from parent ''
                        @ printed (parentOrigin s))
                     (Some [MessageEvent (fst ev) (snd ev)]))
        else (Inr (), s, t0 @ broadcast s (fst ev) (snd ev)))"

definition createFrame :: "state \<Rightarrow> string \<Rightarrow> iframe \<times> state" where
  "createFrame s nm =
    (let f = \<lparr> frame_id = frames_created s,
               frame_name = nm,
               frame_width = ''1'',
               frame_height = ''1'',
               style_visibility = ''hidden'',
               style_position = ''absolute'',
               frame_src = None \<rparr>
     in (f, s\<lparr> document_body := document_body s @ [f],
               frames_created := Suc (frames_created s) \<rparr>))"

text \<open>\<^verbatim>\<open>frame.src = ...\<close> on an iframe that is already in the document.\<close>

definition set_src :: "nat \<Rightarrow> url \<Rightarrow> iframe list \<Rightarrow> iframe list" where
  "set_src i u fs = map (\<lambda>f. if frame_id f = i then f\<lparr> frame_src := Some u \<rparr> else f) fs"

text \<open>\<^verbatim>\<open>frame.remove()\<close>\<close>

definition frame_remove :: "nat \<Rightarrow> iframe list \<Rightarrow> iframe list" where
  "frame_remove i fs = filter (\<lambda>f. frame_id f \<noteq> i) fs"

definition listenToOrigin ::
  "environment \<Rightarrow> symbiosomeContext \<Rightarrow> state \<Rightarrow> string \<Rightarrow> handler \<Rightarrow> callback option
     \<Rightarrow> 'm result" where
  "listenToOrigin env ctx s orig h onListen =
    (case new_URL env orig of
       None \<Rightarrow> (Inl (InvalidURL orig), s, [])
     | Some u \<Rightarrow>
         (let orig' = url_origin u
          in if DAList.lookup (listeners s) orig' \<noteq> None
             then (Inl (ListenerExists orig'), s, [])
             else (Inr (),
                   s\<lparr> listeners := DAList.update orig' h (listeners s) \<rparr>,
                   notify (coalesce onListen (onListenToOrigin ctx)) orig')))"

definition addPortal ::
  "environment \<Rightarrow> symbiosomeContext \<Rightarrow> state \<Rightarrow> string \<Rightarrow> callback option \<Rightarrow> 'm result" where
  "addPortal env ctx s portalURL onAdded =
    (case new_URL env portalURL of
       None \<Rightarrow> (Inl (InvalidURL portalURL), s, [])
     | Some src \<Rightarrow>
         (let orig' = url_origin src
          in if orig' = window_origin env
             then (Inl (PortalIsOwnOrigin (window_origin env)), s, [])
             else if DAList.lookup (portals s) orig' \<noteq> None
             then (Inl (PortalConnected orig'), s, [])
             else
               (let (f, s1) = createFrame s orig';
                    src' = src\<lparr> searchParams :=
                                   params_set (searchParams src) ''parent'' (window_origin env) \<rparr>;
                    f' = f\<lparr> frame_src := Some src' \<rparr>;
                    s2 = s1\<lparr> document_body := set_src (frame_id f) src' (document_body s1) \<rparr>
                in case contentWindow env f' of
                     None \<Rightarrow> (Inl (NoReference orig'), s2, [])
                   | Some w \<Rightarrow>
                       (Inr (),
                        s2\<lparr> portals :=
                              DAList.update orig' \<lparr> frame = frame_id f', window = w \<rparr>
                                (portals s2) \<rparr>,
                        notify (coalesce onAdded (onPortalAdded ctx)) orig'))))"

text \<open>
  In the branch for another origin, \<^verbatim>\<open>!this.portals[origin]\<close> is true only when the
  read is \<^verbatim>\<open>undefined\<close>. An inherited member passes the guard, its \<^verbatim>\<open>window\<close> is
  \<^verbatim>\<open>undefined\<close>, and the call of \<^verbatim>\<open>postMessage\<close> on it throws a \<^verbatim>\<open>TypeError\<close>.
\<close>

definition pushToOrigin ::
  "environment \<Rightarrow> symbiosomeContext \<Rightarrow> state \<Rightarrow> origin \<Rightarrow> 'm \<Rightarrow> callback option \<Rightarrow> 'm result" where
  "pushToOrigin env ctx s orig message onPush =
    (if orig = window_origin env
     then (Inr (), s,
           broadcast s orig message
             @ notify_pushed (coalesce onPush (onPushedMessage ctx)) orig message)
     else (case property_read (portals s) orig of
             Undefined \<Rightarrow> (Inl (PushMissingPortal orig), s, [])
           | Inherited \<Rightarrow> (Inl (ReadOfUndefined ''postMessage''), s, [])
           | Own p \<Rightarrow>
               (Inr (), s,
                PostMessage (window p) message orig
                  # notify_pushed (coalesce onPush (onPushedMessage ctx)) orig message)))"

text \<open>
  As in \<^verbatim>\<open>pushToOrigin\<close>: an inherited member passes the guard, its \<^verbatim>\<open>frame\<close> is
  \<^verbatim>\<open>undefined\<close>, and the call of \<^verbatim>\<open>remove\<close> on it throws a \<^verbatim>\<open>TypeError\<close>.
\<close>

definition removePortal ::
  "environment \<Rightarrow> symbiosomeContext \<Rightarrow> state \<Rightarrow> origin \<Rightarrow> callback option \<Rightarrow> 'm result" where
  "removePortal env ctx s orig onRemoved =
    (if orig = window_origin env
     then (Inl (RemoveOwnOrigin orig), s, [])
     else (case property_read (portals s) orig of
             Undefined \<Rightarrow> (Inl (RemoveMissingPortal orig), s, [])
           | Inherited \<Rightarrow> (Inl (ReadOfUndefined ''remove''), s, [])
           | Own p \<Rightarrow>
               (Inr (),
                s\<lparr> document_body := frame_remove (frame p) (document_body s),
                   portals := DAList.delete orig (portals s) \<rparr>,
                notify (coalesce onRemoved (onPortalRemoved ctx)) orig)))"

text \<open>
  Here nothing is read from the value after the guard: for an inherited member the
  \<^verbatim>\<open>delete\<close> finds no own property to drop, and the callback is invoked.
\<close>

definition removeListener ::
  "symbiosomeContext \<Rightarrow> state \<Rightarrow> origin \<Rightarrow> callback option \<Rightarrow> 'm result" where
  "removeListener ctx s orig onRemoved =
    (case property_read (listeners s) orig of
       Undefined \<Rightarrow> (Inl (RemoveMissingListener orig), s, [])
     | Inherited \<Rightarrow>
         (Inr (),
          s\<lparr> listeners := DAList.delete orig (listeners s) \<rparr>,
          notify (coalesce onRemoved (onListenerRemoved ctx)) orig)
     | Own h \<Rightarrow>
         (Inr (),
          s\<lparr> listeners := DAList.delete orig (listeners s) \<rparr>,
          notify (coalesce onRemoved (onListenerRemoved ctx)) orig))"

text \<open>
  \<^verbatim>\<open>getOrigins\<close> copies the portals into a fresh object, copies the listeners over
  it, and returns the keys of the result.
\<close>

definition getOrigins :: "state \<Rightarrow> origin list" where
  "getOrigins s =
    (let origins = object_assign DAList.empty (object_values Inl (portals s));
         origins' = object_assign origins (object_values Inr (listeners s))
     in object_keys origins')"

subsection \<open>Executions\<close>

text \<open>
  What can happen to an instance after its construction: a call of one of the five public
  methods, a \<^verbatim>\<open>message\<close> event on the window (handled only when the constructor
  registered \<^verbatim>\<open>handlePortalMessage\<close>), or a message on the broadcast channel.
\<close>

datatype 'm action =
    ListenToOrigin string handler "callback option"
  | AddPortal string "callback option"
  | PushToOrigin origin 'm "callback option"
  | RemovePortal origin "callback option"
  | RemoveListener origin "callback option"
  | WindowMessage origin 'm
  | ChannelMessage origin 'm

fun perform :: "environment \<Rightarrow> symbiosomeContext \<Rightarrow> state \<Rightarrow> 'm action \<Rightarrow> 'm result" where
  "perform env ctx s (ListenToOrigin orig h cb) = listenToOrigin env ctx s orig h cb"
| "perform env ctx s (AddPortal u cb) = addPortal env ctx s u cb"
| "perform env ctx s (PushToOrigin orig m cb) = pushToOrigin env ctx s orig m cb"
| "perform env ctx s (RemovePortal orig cb) = removePortal env ctx s orig cb"
| "perform env ctx s (RemoveListener orig cb) = removeListener ctx s orig cb"
| "perform env ctx s (WindowMessage orig m) =
     (if window_listening s then handlePortalMessage ctx s (orig, m) else (Inr (), s, []))"
| "perform env ctx s (ChannelMessage orig m) =
     (if channel_listening s then handleBroadcast ctx s (orig, m) else (Inr (), s, []))"

text \<open>
  \<open>execution env ctx s t\<close>: the instance built by the constructor can be in state \<open>s\<close>,
  having produced the effects \<open>t\<close>. A call that throws leaves the instance usable, so an
  execution goes on after an error.
\<close>

inductive execution ::
  "environment \<Rightarrow> symbiosomeContext \<Rightarrow> state \<Rightarrow> 'm event list \<Rightarrow> bool"
  for env :: environment and ctx :: symbiosomeContext where
  constructed:
    "constructor env ctx = (r, s, t) \<Longrightarrow> execution env ctx s t"
| performed:
    "execution env ctx s t \<Longrightarrow> perform env ctx s a = (r, s', t') \<Longrightarrow>
       execution env ctx s' (t @ t')"

subsection \<open>Observations on a trace\<close>

text \<open>The effects of a trace other than the calls of the debug function.\<close>

definition external :: "'m event list \<Rightarrow> 'm event list" where
  "external t = filter (\<lambda>e. case e of Debug c x d \<Rightarrow> False | _ \<Rightarrow> True) t"

subsection \<open>A concrete setting\<close>

text \<open>
  A page of \<^verbatim>\<open>https://b.example\<close>, opened in portal mode by \<^verbatim>\<open>https://a.example\<close>,
  with every default callback configured. \<open>example_URL\<close> is the \<^verbatim>\<open>URL\<close> constructor
  on the few strings the examples use.
\<close>

definition example_URL :: "string \<Rightarrow> url option" where
  "example_URL x =
    (if x = ''https://a.example''
     then Some \<lparr> url_origin = ''https://a.example'', url_base = ''https://a.example/'',
                 searchParams = [] \<rparr>
     else if x = ''https://b.example''
     then Some \<lparr> url_origin = ''https://b.example'', url_base = ''https://b.example/'',
                 searchParams = [] \<rparr>
     else if x = ''https://c.example''
     then Some \<lparr> url_origin = ''https://c.example'', url_base = ''https://c.example/'',
                 searchParams = [] \<rparr>
     else if x = ''https://c.example/portal?v=1''
     then Some \<lparr> url_origin = ''https://c.example'', url_base = ''https://c.example/portal'',
                 searchParams = [(''v'', ''1'')] \<rparr>
     else None)"

definition example_env :: environment where
  "example_env =
    \<lparr> window_origin = ''https://b.example'',
      location_origin = ''https://b.example'',
      location_search = [(''parent'', ''https://a.example'')],
      window_parent = Window 0,
      new_URL = example_URL,
      contentWindow = (\<lambda>f. Some (Window (Suc (frame_id f)))) \<rparr>"

definition example_ctx :: symbiosomeContext where
  "example_ctx =
    \<lparr> isPortal = True,
      onPortalAdded = Some (Callback 1),
      onListenToOrigin = Some (Callback 2),
      onPushedMessage = Some (Callback 3),
      onPortalRemoved = Some (Callback 4),
      onListenerRemoved = Some (Callback 5),
      debug = Some (Callback 6) \<rparr>"

text \<open>The instance right after construction, and after it listens to its parent.\<close>

definition example_new :: state where
  "example_new = post (constructor example_env example_ctx :: string result)"

definition example_listening :: state where
  "example_listening =
     post (listenToOrigin example_env example_ctx example_new ''https://a.example''
             (Handler 7) None :: string result)"

definition example_own :: state where
  "example_own =
     post (listenToOrigin example_env example_ctx example_new ''https://b.example''
             (Handler 8) None :: string result)"

text \<open>The instance after it has opened a portal to \<^verbatim>\<open>https://c.example\<close>.\<close>

definition example_portaled :: state where
  "example_portaled =
     post (addPortal example_env example_ctx example_new ''https://c.example/portal?v=1''
             None :: string result)"

text \<open>The same page opened on its own, without the \<^verbatim>\<open>parent\<close> parameter.\<close>

definition orphan_env :: environment where
  "orphan_env =
    \<lparr> window_origin = ''https://b.example'',
      location_origin = ''https://b.example'',
      location_search = [],
      window_parent = Window 0,
      new_URL = example_URL,
      contentWindow = (\<lambda>f. Some (Window (Suc (frame_id f)))) \<rparr>"

text \<open>A platform that gives no content window for an iframe.\<close>

definition detached_env :: environment where
  "detached_env =
    \<lparr> window_origin = ''https://b.example'',
      location_origin = ''https://b.example'',
      location_search = [],
      window_parent = Window 0,
      new_URL = example_URL,
      contentWindow = (\<lambda>f. None) \<rparr>"

section \<open>Properties\<close>

subsection \<open>Auxiliary facts\<close>

lemma external_Nil [simp]: "external [] = []"
  by (simp add: external_def)

lemma external_Cons [simp]:
  "external (Debug c x d # t) = external t"
  "external (Publish ch orig m # t) = Publish ch orig m # external t"
  "external (Deliver h orig m # t) = Deliver h orig m # external t"
  "external (Notify c orig # t) = Notify c orig # external t"
  "external (NotifyPushed c orig m # t) = NotifyPushed c orig m # external t"
  "external (PostMessage w m orig # t) = PostMessage w m orig # external t"
  by (simp_all add: external_def)

lemma external_append [simp]: "external (t @ u) = external t @ external u"
  by (simp add: external_def)

lemma external_debug_call [simp]: "external (debug_call ctx x d) = []"
  by (simp add: debug_call_def split: option.splits)

lemma external_notify [simp]: "external (notify cb orig) = notify cb orig"
  by (simp add: notify_def split: option.splits)

lemma external_notify_pushed [simp]:
  "external (notify_pushed cb orig m) = notify_pushed cb orig m"
  by (simp add: notify_pushed_def split: option.splits)

lemma Deliver_in_external: "Deliver h orig m \<in> set (external t) \<longleftrightarrow> Deliver h orig m \<in> set t"
  by (simp add: external_def)

lemma Publish_in_external: "Publish c orig m \<in> set (external t) \<longleftrightarrow> Publish c orig m \<in> set t"
  by (simp add: external_def)

lemma example_new_eq:
  "example_new =
    \<lparr> listeners = DAList.empty, portals = DAList.empty, parent = Some (Window 0),
      parentOrigin = Some ''https://a.example'',
      broadcastChannel = ''symbiosome__https://b.example'',
      channelID = ''symbiosome__https://b.example'',
      window_listening = True, channel_listening = True,
      document_body = [], frames_created = 0 \<rparr>"
  by (simp add: example_new_def constructor_def post_def example_env_def example_ctx_def
      params_get_def falsy_def Let_def)

lemma example_listening_eq:
  "example_listening =
     example_new\<lparr> listeners := DAList.update ''https://a.example'' (Handler 7) DAList.empty \<rparr>"
  by (simp add: example_listening_def listenToOrigin_def post_def example_env_def
      example_URL_def example_new_eq Let_def)

lemma example_own_eq:
  "example_own =
     example_new\<lparr> listeners := DAList.update ''https://b.example'' (Handler 8) DAList.empty \<rparr>"
  by (simp add: example_own_def listenToOrigin_def post_def example_env_def
      example_URL_def example_new_eq Let_def)

lemma serialised_origin_not_inherited:
  "serialised_origin x \<Longrightarrow> x \<notin> set object_prototype_names"
  by (auto simp add: serialised_origin_def object_prototype_names_def)

lemma property_read_serialised_origin:
  "serialised_origin k \<Longrightarrow>
   property_read obj k = (case DAList.lookup obj k of None \<Rightarrow> Undefined | Some v \<Rightarrow> Own v)"
  by (simp add: property_read_def serialised_origin_not_inherited split: option.splits)

lemma example_origins_serialised:
  "serialised_origin ''https://a.example''"
  "serialised_origin ''https://b.example''"
  "serialised_origin ''https://c.example''"
  by (simp_all add: serialised_origin_def)

lemma perform_keeps_parentOrigin:
  "parentOrigin (post (perform env ctx s a)) = parentOrigin s"
  by (cases a)
     (auto simp add: listenToOrigin_def addPortal_def pushToOrigin_def removePortal_def
        removeListener_def handlePortalMessage_def handleBroadcast_def createFrame_def
        property_read_def post_def Let_def split: option.splits if_splits)

lemma perform_keeps_own_origin_unportaled:
  "DAList.lookup (portals s) (window_origin env) = None \<Longrightarrow>
   DAList.lookup (portals (post (perform env ctx s a))) (window_origin env) = None"
  by (cases a)
     (auto simp add: listenToOrigin_def addPortal_def pushToOrigin_def removePortal_def
        removeListener_def handlePortalMessage_def handleBroadcast_def createFrame_def
        property_read_def post_def Let_def split: option.splits if_splits)

lemma execution_own_origin_unportaled:
  "execution env ctx s t \<Longrightarrow> DAList.lookup (portals s) (window_origin env) = None"
proof (induction rule: execution.induct)
  case (constructed r s t)
  then show ?case by (auto simp add: constructor_def Let_def)
next
  case (performed s t a r s' t')
  from perform_keeps_own_origin_unportaled [OF performed.IH, of ctx a] performed.hyps(2)
  show ?case by (simp add: post_def)
qed

lemma execution_parentOrigin:
  "execution env ctx s t \<Longrightarrow>
   parentOrigin s =
     (if isPortal ctx \<and> \<not> falsy (params_get (location_search env) ''parent'')
         \<and> params_get (location_search env) ''parent'' \<noteq> Some (window_origin env)
      then params_get (location_search env) ''parent'' else None)"
proof (induction rule: execution.induct)
  case (constructed r s t)
  then show ?case by (auto simp add: constructor_def Let_def)
next
  case (performed s t a r s' t')
  from perform_keeps_parentOrigin [of env ctx s a] performed
  show ?case by (simp add: post_def)
qed

lemma example_new_execution:
  "execution example_env example_ctx example_new
     (effects (constructor example_env example_ctx :: string result))"
  by (rule execution.constructed [where r = "Inr ()"])
     (simp add: example_new_def post_def effects_def constructor_def Let_def)

lemma example_portaled_execution:
  "execution example_env example_ctx example_portaled
     (effects (constructor example_env example_ctx :: string result)
      @ effects (addPortal example_env example_ctx example_new ''https://c.example/portal?v=1''
                   None :: string result))"
  by (rule execution.performed
        [OF example_new_execution,
         where a = "AddPortal ''https://c.example/portal?v=1'' None"
           and r = "outcome (addPortal example_env example_ctx example_new
                      ''https://c.example/portal?v=1'' None :: string result)"])
     (simp add: example_portaled_def post_def effects_def outcome_def)

lemma example_portaled_lookup:
  "DAList.lookup (portals example_portaled) ''https://c.example''
     = Some \<lparr> frame = 0, window = Window 1 \<rparr>"
  by (simp add: example_portaled_def addPortal_def createFrame_def post_def example_env_def
      example_URL_def example_new_eq Let_def)

lemma object_keys_distinct: "distinct (object_keys obj)"
  by (simp add: object_keys_def)

lemma object_keys_empty: "object_keys DAList.empty = []"
  by (simp add: object_keys_def DAList.empty.rep_eq)

lemma set_object_keys_update:
  "set (object_keys (DAList.update k v obj)) = insert k (set (object_keys obj))"
  using AList.dom_update [of k v "DAList.impl_of obj"]
  by (simp add: object_keys_def DAList.update.rep_eq)

lemma set_object_keys_delete:
  "set (object_keys (DAList.delete k obj)) = set (object_keys obj) - {k}"
  by (simp add: object_keys_def DAList.delete.rep_eq AList.delete_keys)

lemma set_object_keys_fold:
  "set (object_keys (fold (\<lambda>(k, v). DAList.update k v) xs obj))
     = set (object_keys obj) \<union> fst ` set xs"
  by (induction xs arbitrary: obj) (auto simp add: set_object_keys_update)

lemma set_object_keys_assign:
  "set (object_keys (object_assign target source))
     = set (object_keys target) \<union> set (object_keys source)"
  unfolding object_assign_def set_object_keys_fold by (simp add: object_keys_def)

lemma object_keys_values: "object_keys (object_values f obj) = object_keys obj"
  by (simp add: object_keys_def object_values.rep_eq)

lemma set_getOrigins:
  "set (getOrigins s) = set (object_keys (listeners s)) \<union> set (object_keys (portals s))"
  by (auto simp add: getOrigins_def Let_def set_object_keys_assign object_keys_values
      object_keys_empty)

lemma distinct_getOrigins: "distinct (getOrigins s)"
  by (simp add: getOrigins_def Let_def object_keys_distinct)

lemma addPortal_returns:
  assumes "addPortal env ctx s portalURL onAdded = (Inr (), s', t)"
    and "new_URL env portalURL = Some u"
  shows "url_origin u \<noteq> window_origin env
    \<and> DAList.lookup (portals s) (url_origin u) = None
    \<and> (\<exists>p. portals s' = DAList.update (url_origin u) p (portals s))
    \<and> listeners s' = listeners s"
  using assms
  by (auto simp add: addPortal_def createFrame_def Let_def split: option.splits if_splits)

lemma listenToOrigin_returns:
  assumes "listenToOrigin env ctx s orig h onListen = (Inr (), s', t)"
    and "new_URL env orig = Some u"
  shows "listeners s' = DAList.update (url_origin u) h (listeners s) \<and> portals s' = portals s"
  using assms
  by (auto simp add: listenToOrigin_def Let_def split: option.splits if_splits)

lemma removePortal_returns:
  assumes "orig \<noteq> window_origin env" and "DAList.lookup (portals s) orig = Some p"
  shows "removePortal env ctx s orig onRemoved
    = (Inr (),
       s\<lparr> document_body := frame_remove (frame p) (document_body s),
          portals := DAList.delete orig (portals s) \<rparr>,
       notify (coalesce onRemoved (onPortalRemoved ctx)) orig)"
  using assms by (simp add: removePortal_def property_read_def)

lemma constructor_registries:
  "constructor env ctx = (r, s, t) \<Longrightarrow> listeners s = DAList.empty \<and> portals s = DAList.empty"
  by (auto simp add: constructor_def Let_def)

lemma result_eq: "r = (outcome r, post r, effects r)"
  by (simp add: outcome_def post_def effects_def)

lemma example_portaled_outcome:
  "outcome (addPortal example_env example_ctx example_new ''https://c.example/portal?v=1'' None
              :: string result) = Inr ()"
  by (simp add: addPortal_def createFrame_def outcome_def example_env_def example_URL_def
      example_new_eq Let_def)

lemma example_both_outcome:
  "outcome (listenToOrigin example_env example_ctx example_portaled ''https://a.example''
              (Handler 7) None :: string result) = Inr ()"
  by (simp add: listenToOrigin_def outcome_def example_env_def example_URL_def
      example_portaled_def addPortal_def createFrame_def post_def example_new_eq Let_def)

subsection \<open>Inbound messages from the window\<close>

text \<open>
  Claim C1. In a portal-mode instance (the constructor registered the window listener)
  whose captured parent origin is \<open>P\<close>, a \<^verbatim>\<open>message\<close> event of the window never
  throws and never changes the instance. When its sender origin is \<open>P\<close>, the effects
  besides debugging are: the message is posted to the broadcast channel as
  \<open>{origin, data}\<close>, and then the instance's listener for that origin, if there is
  one, is invoked with the origin and the data. When the sender origin is not \<open>P\<close>
  there is no effect besides debugging. So the message is published exactly when the
  sender is \<open>P\<close>, and for any other sender no handler is invoked.
\<close>

theorem portal_message_forwarded_iff_parent:
  assumes "window_listening s" and "parentOrigin s = Some P"
  shows "outcome (perform env ctx s (WindowMessage sender payload)) = Inr ()
    \<and> post (perform env ctx s (WindowMessage sender payload)) = s
    \<and> external (effects (perform env ctx s (WindowMessage sender payload))) =
        (if sender = P
         then Publish (broadcastChannel s) sender payload #
              (case DAList.lookup (listeners s) sender of
                 None \<Rightarrow> []
               | Some h \<Rightarrow> [Deliver h sender payload])
         else [])
    \<and> ((\<exists>c orig m. Publish c orig m
            \<in> set (effects (perform env ctx s (WindowMessage sender payload))))
         \<longleftrightarrow> sender = P)
    \<and> (sender \<noteq> P \<longrightarrow>
         (\<forall>h orig m. Deliver h orig m
            \<notin> set (effects (perform env ctx s (WindowMessage sender payload)))))"
proof -
  let ?r = "perform env ctx s (WindowMessage sender payload)"
  have ext: "external (effects ?r) =
        (if sender = P
         then Publish (broadcastChannel s) sender payload #
              (case DAList.lookup (listeners s) sender of
                 None \<Rightarrow> []
               | Some h \<Rightarrow> [Deliver h sender payload])
         else [])"
    using assms
    by (simp add: handlePortalMessage_def effects_def Let_def broadcast_def
        split: option.splits)
  have res: "outcome ?r = Inr () \<and> post ?r = s"
    using assms by (simp add: handlePortalMessage_def outcome_def post_def Let_def)
  have "(\<exists>c orig m. Publish c orig m \<in> set (external (effects ?r))) \<longleftrightarrow> sender = P"
    unfolding ext by auto
  then have pub: "(\<exists>c orig m. Publish c orig m \<in> set (effects ?r)) \<longleftrightarrow> sender = P"
    by (simp only: Publish_in_external)
  have "sender \<noteq> P \<longrightarrow> (\<forall>h orig m. Deliver h orig m \<notin> set (external (effects ?r)))"
    unfolding ext by simp
  then have del: "sender \<noteq> P \<longrightarrow> (\<forall>h orig m. Deliver h orig m \<notin> set (effects ?r))"
    by (simp only: Deliver_in_external)
  from ext res pub del show ?thesis by blast
qed

theorem portal_message_forwarded_iff_parent_witness:
  "window_listening example_listening
   \<and> parentOrigin example_listening = Some ''https://a.example''
   \<and> external (effects (perform example_env example_ctx example_listening
                          (WindowMessage ''https://a.example'' ''hi''))) =
       [Publish ''symbiosome__https://b.example'' ''https://a.example'' ''hi'',
        Deliver (Handler 7) ''https://a.example'' ''hi'']
   \<and> external (effects (perform example_env example_ctx example_listening
                          (WindowMessage ''https://c.example'' ''hi''))) = []"
  using portal_message_forwarded_iff_parent
          [of example_listening "''https://a.example''" example_env example_ctx
              "''https://a.example''" "''hi''"]
        portal_message_forwarded_iff_parent
          [of example_listening "''https://a.example''" example_env example_ctx
              "''https://c.example''" "''hi''"]
  by (simp add: example_listening_eq example_new_eq)

subsection \<open>Pushing messages\<close>



text \<open>
  Claim C3. For an origin (a serialised origin) other than the own origin for which no
  portal is registered, \<^verbatim>\<open>pushToOrigin\<close> throws the missing-portal error
  (\<open>PortalNotFound\<close> in the specification), has no effect at all, so nothing is posted
  to any window, and leaves the instance, with both registries, as it was.
\<close>

theorem push_to_unportaled_origin:
  assumes "serialised_origin orig"
    and "orig \<noteq> window_origin env" and "DAList.lookup (portals s) orig = None"
  shows "let r = pushToOrigin env ctx s orig m onPush in
      outcome r = Inl (PushMissingPortal orig)
    \<and> kind (PushMissingPortal orig) = PortalNotFound
    \<and> post r = s
    \<and> effects r = []"
  using assms
  by (simp add: pushToOrigin_def property_read_serialised_origin outcome_def post_def
      effects_def)

theorem push_to_unportaled_origin_witness:
  "serialised_origin ''https://c.example''
   \<and> ''https://c.example'' \<noteq> window_origin example_env
   \<and> DAList.lookup (portals example_listening) ''https://c.example'' = None
   \<and> pushToOrigin example_env example_ctx example_listening ''https://c.example'' ''hi'' None
       = (Inl (PushMissingPortal ''https://c.example''), example_listening, [])"
proof -
  have a: "''https://c.example'' \<noteq> window_origin example_env"
    by (simp add: example_env_def)
  have b: "DAList.lookup (portals example_listening) ''https://c.example'' = None"
    by (simp add: example_listening_eq example_new_eq)
  from a b example_origins_serialised(3)
    push_to_unportaled_origin [OF example_origins_serialised(3) a b, of example_ctx "''hi''" None]
  show ?thesis by (simp add: Let_def outcome_def post_def effects_def prod_eq_iff)
qed

subsection \<open>Names inherited from the prototype\<close>

text \<open>
  The strings excluded above are the names a plain object inherits. At such a name, with
  no own entry, the guards of the three methods are passed: \<^verbatim>\<open>pushToOrigin\<close> and
  \<^verbatim>\<open>removePortal\<close> throw a \<^verbatim>\<open>TypeError\<close> where they call a method on
  \<^verbatim>\<open>undefined\<close>, and \<^verbatim>\<open>removeListener\<close> returns normally and invokes the callback.
\<close>

lemma push_to_inherited_name:
  "pushToOrigin example_env example_ctx example_new ''constructor'' m None
     = (Inl (ReadOfUndefined ''postMessage''), example_new, [])"
  by (simp add: pushToOrigin_def property_read_def object_prototype_names_def example_env_def
      example_new_eq)

lemma remove_portal_inherited_name:
  "removePortal example_env example_ctx example_new ''toString'' None
     = (Inl (ReadOfUndefined ''remove''), example_new, [])"
  by (simp add: removePortal_def property_read_def object_prototype_names_def example_env_def
      example_new_eq)

lemma remove_listener_inherited_name:
  "outcome (removeListener example_ctx example_new ''constructor'' None) = Inr ()
   \<and> effects (removeListener example_ctx example_new ''constructor'' None)
       = [Notify (Callback 5) ''constructor'']"
  by (simp add: removeListener_def property_read_def object_prototype_names_def outcome_def
      effects_def notify_def coalesce_def example_ctx_def example_new_eq)

subsection \<open>Listeners\<close>

text \<open>
  Claim C10. \<^verbatim>\<open>removeListener\<close> does not look at the own origin. For every origin
  (a serialised origin), the own one included, it returns normally exactly when a
  listener is registered for the origin, and then the entry is deleted and the removal
  callback is invoked with the origin: the callback given with the call if there is one,
  else the configured default if there is one. It throws the missing-listener error
  (\<open>NotFound\<close> in the specification) exactly when no listener is registered for the
  origin, and then nothing is changed and nothing is invoked. \<^verbatim>\<open>removePortal\<close>, in
  contrast, refuses the own origin.
\<close>

theorem remove_listener_iff_registered:
  assumes "serialised_origin orig" and "serialised_origin (window_origin env)"
  shows "let r = removeListener ctx s orig onRemoved :: 'm result;
       r' = removeListener ctx s (window_origin env) onRemoved :: 'm result;
       p = removePortal env ctx s (window_origin env) onRemoved :: 'm result in
     (outcome r = Inr () \<longleftrightarrow> DAList.lookup (listeners s) orig \<noteq> None)
   \<and> (outcome r = Inl (RemoveMissingListener orig)
        \<longleftrightarrow> DAList.lookup (listeners s) orig = None)
   \<and> kind (RemoveMissingListener orig) = NotFound
   \<and> (DAList.lookup (listeners s) orig = None \<longrightarrow> post r = s \<and> effects r = [])
   \<and> (DAList.lookup (listeners s) orig \<noteq> None \<longrightarrow>
        post r = s\<lparr> listeners := DAList.delete orig (listeners s) \<rparr>
        \<and> DAList.lookup (listeners (post r)) orig = None
        \<and> portals (post r) = portals s
        \<and> effects r = (case onRemoved of
                          Some c \<Rightarrow> [Notify c orig]
                        | None \<Rightarrow> (case onListenerRemoved ctx of
                                     Some c \<Rightarrow> [Notify c orig]
                                   | None \<Rightarrow> [])))
   \<and> (outcome r' = Inr () \<longleftrightarrow> DAList.lookup (listeners s) (window_origin env) \<noteq> None)
   \<and> outcome p = Inl (RemoveOwnOrigin (window_origin env))"
  using assms
  by (auto simp add: removeListener_def removePortal_def property_read_serialised_origin
      outcome_def post_def effects_def notify_def coalesce_def Let_def split: option.splits)

theorem remove_listener_iff_registered_witness:
  "serialised_origin ''https://b.example''
   \<and> serialised_origin (window_origin example_env)
   \<and> DAList.lookup (listeners example_own) ''https://b.example'' \<noteq> None
   \<and> outcome (removeListener example_ctx example_own ''https://b.example'' None
                :: string result) = Inr ()
   \<and> effects (removeListener example_ctx example_own ''https://b.example'' None
                :: string result) = [Notify (Callback 5) ''https://b.example'']
   \<and> effects (removeListener example_ctx example_own ''https://b.example''
                (Some (Callback 9)) :: string result)
       = [Notify (Callback 9) ''https://b.example'']
   \<and> DAList.lookup (listeners example_new) ''https://b.example'' = None
   \<and> outcome (removeListener example_ctx example_new ''https://b.example''
                (Some (Callback 9)) :: string result)
       = Inl (RemoveMissingListener ''https://b.example'')
   \<and> effects (removeListener example_ctx example_new ''https://b.example''
                (Some (Callback 9)) :: string result) = []"
proof -
  have a: "DAList.lookup (listeners example_own) ''https://b.example'' \<noteq> None"
    by (simp add: example_own_eq)
  have b: "DAList.lookup (listeners example_new) ''https://b.example'' = None"
    by (simp add: example_new_eq)
  have o: "serialised_origin (window_origin example_env)"
    by (simp add: example_env_def example_origins_serialised)
  from a b o example_origins_serialised(2)
    remove_listener_iff_registered
      [where ?'m = string, OF example_origins_serialised(2) o,
       of example_ctx example_own None]
    remove_listener_iff_registered
      [where ?'m = string, OF example_origins_serialised(2) o,
       of example_ctx example_own "Some (Callback 9)"]
    remove_listener_iff_registered
      [where ?'m = string, OF example_origins_serialised(2) o,
       of example_ctx example_new "Some (Callback 9)"]
  show ?thesis
    by (simp add: Let_def example_ctx_def)
qed

text \<open>
  Claim C4. After a call of \<^verbatim>\<open>listenToOrigin\<close> for an origin has returned normally
  with handler \<open>h\<close>, a second call for the same origin with a handler \<open>h2\<close> throws the
  listener-exists error (\<open>DuplicateOrigin\<close> in the specification) and changes
  nothing: \<open>h\<close> is still the handler registered for the origin, and a delivery for the
  origin, from the broadcast channel or by the local echo of \<^verbatim>\<open>broadcast\<close>, invokes
  \<open>h\<close>.
\<close>

theorem second_listen_is_duplicate:
  assumes "outcome (listenToOrigin env ctx s orig h onListen :: 'm result) = Inr ()"
  shows "let s1 = post (listenToOrigin env ctx s orig h onListen :: 'm result);
             r2 = listenToOrigin env ctx s1 orig h2 onListen2 :: 'm result in
      \<exists>u. new_URL env orig = Some u
      \<and> outcome r2 = Inl (ListenerExists (url_origin u))
      \<and> kind (ListenerExists (url_origin u)) = DuplicateOrigin
      \<and> post r2 = s1
      \<and> effects r2 = []
      \<and> DAList.lookup (listeners (post r2)) (url_origin u) = Some h
      \<and> external (effects (handleBroadcast ctx (post r2) (url_origin u, m)))
          = [Deliver h (url_origin u) (m :: 'm)]
      \<and> broadcast (post r2) (url_origin u) m
          = [Publish (broadcastChannel s) (url_origin u) m, Deliver h (url_origin u) m]"
  using assms
  by (auto simp add: listenToOrigin_def handleBroadcast_def broadcast_def outcome_def post_def
      effects_def Let_def split: option.splits if_splits)

theorem second_listen_is_duplicate_witness:
  "outcome (listenToOrigin example_env example_ctx example_new ''https://a.example''
              (Handler 7) None :: string result) = Inr ()
   \<and> listenToOrigin example_env example_ctx example_listening ''https://a.example''
        (Handler 10) None
       = (Inl (ListenerExists ''https://a.example''), example_listening,
          [] :: string event list)
   \<and> DAList.lookup (listeners example_listening) ''https://a.example'' = Some (Handler 7)"
proof -
  have a: "outcome (listenToOrigin example_env example_ctx example_new ''https://a.example''
              (Handler 7) None :: string result) = Inr ()"
    by (simp add: listenToOrigin_def outcome_def example_env_def example_URL_def
        example_new_eq Let_def)
  from a second_listen_is_duplicate [OF a, of "Handler 10" None "''hi''"]
  show ?thesis
    by (auto simp add: Let_def outcome_def post_def effects_def prod_eq_iff
        example_listening_def example_env_def example_URL_def)
qed

subsection \<open>Failing calls\<close>

text \<open>
  Claim C9. Whenever a call of \<^verbatim>\<open>listenToOrigin\<close>, \<^verbatim>\<open>addPortal\<close>,
  \<^verbatim>\<open>pushToOrigin\<close>, \<^verbatim>\<open>removePortal\<close> or \<^verbatim>\<open>removeListener\<close> throws, the
  listener registry and the portal registry are what they were before the call, and the
  call has had no effect on the outside: in particular neither the callback given with
  the call nor the configured default has been invoked.
\<close>

theorem failure_changes_nothing:
  assumes "outcome (perform env ctx s a) = Inl e"
  shows "listeners (post (perform env ctx s a)) = listeners s
    \<and> portals (post (perform env ctx s a)) = portals s
    \<and> effects (perform env ctx s a) = []
    \<and> (\<forall>c orig. Notify c orig \<notin> set (effects (perform env ctx s a)))
    \<and> (\<forall>c orig m. NotifyPushed c orig m \<notin> set (effects (perform env ctx s a)))"
  using assms
  by (cases a)
     (auto simp add: listenToOrigin_def addPortal_def pushToOrigin_def removePortal_def
        removeListener_def handlePortalMessage_def handleBroadcast_def createFrame_def
        property_read_def outcome_def post_def effects_def Let_def
        split: option.splits if_splits)

theorem failure_changes_nothing_witness:
  "outcome (perform example_env example_ctx example_listening
              (RemovePortal ''https://c.example'' (Some (Callback 9)) :: string action))
     = Inl (RemoveMissingPortal ''https://c.example'')
   \<and> listeners (post (perform example_env example_ctx example_listening
              (RemovePortal ''https://c.example'' (Some (Callback 9)) :: string action)))
     = listeners example_listening
   \<and> effects (perform example_env example_ctx example_listening
              (RemovePortal ''https://c.example'' (Some (Callback 9)) :: string action)) = []"
proof -
  have a: "outcome (perform example_env example_ctx example_listening
              (RemovePortal ''https://c.example'' (Some (Callback 9)) :: string action))
     = Inl (RemoveMissingPortal ''https://c.example'')"
    by (simp add: removePortal_def property_read_def object_prototype_names_def outcome_def
        example_env_def example_listening_eq example_new_eq)
  from a failure_changes_nothing [OF a] show ?thesis by simp
qed

subsection \<open>Adding portals\<close>

text \<open>
  Claim C5. Let the portal URL parse, with canonical origin \<open>url_origin u\<close>. If that
  origin is the own origin, \<^verbatim>\<open>addPortal\<close> throws the own-origin error
  (\<open>SelfOrigin\<close> in the specification) whatever the state \<open>s0\<close> of the instance. If,
  in a state \<open>s\<close> the instance can reach, a portal is registered for that origin,
  \<^verbatim>\<open>addPortal\<close> throws the already-connected error (\<open>DuplicateOrigin\<close>). In both
  cases the instance, with its portal registry, is unchanged and nothing is invoked.
\<close>

theorem add_portal_self_or_duplicate:
  assumes "new_URL env portalURL = Some u" and "execution env ctx s (t :: 'm event list)"
  shows "(url_origin u = window_origin env \<longrightarrow>
           (let r = addPortal env ctx s0 portalURL onAdded :: 'm result in
              outcome r = Inl (PortalIsOwnOrigin (window_origin env))
            \<and> kind (PortalIsOwnOrigin (window_origin env)) = SelfOrigin
            \<and> post r = s0
            \<and> effects r = []))
    \<and> (DAList.lookup (portals s) (url_origin u) \<noteq> None \<longrightarrow>
           (let r = addPortal env ctx s portalURL onAdded :: 'm result in
              outcome r = Inl (PortalConnected (url_origin u))
            \<and> kind (PortalConnected (url_origin u)) = DuplicateOrigin
            \<and> post r = s
            \<and> effects r = []))"
  using assms(1) execution_own_origin_unportaled [OF assms(2)]
  by (auto simp add: addPortal_def outcome_def post_def effects_def Let_def)

theorem add_portal_self_or_duplicate_witness:
  "new_URL example_env ''https://b.example'' \<noteq> None
   \<and> outcome (addPortal example_env example_ctx example_portaled ''https://b.example'' None
                :: string result) = Inl (PortalIsOwnOrigin ''https://b.example'')
   \<and> new_URL example_env ''https://c.example'' \<noteq> None
   \<and> DAList.lookup (portals example_portaled) ''https://c.example'' \<noteq> None
   \<and> outcome (addPortal example_env example_ctx example_portaled ''https://c.example''
                (Some (Callback 9)) :: string result)
       = Inl (PortalConnected ''https://c.example'')
   \<and> post (addPortal example_env example_ctx example_portaled ''https://c.example''
                (Some (Callback 9)) :: string result) = example_portaled"
proof -
  have b: "new_URL example_env ''https://b.example''
      = Some \<lparr> url_origin = ''https://b.example'', url_base = ''https://b.example/'',
               searchParams = [] \<rparr>"
    by (simp add: example_env_def example_URL_def)
  have c: "new_URL example_env ''https://c.example''
      = Some \<lparr> url_origin = ''https://c.example'', url_base = ''https://c.example/'',
               searchParams = [] \<rparr>"
    by (simp add: example_env_def example_URL_def)
  have o: "window_origin example_env = ''https://b.example''"
    by (simp add: example_env_def)
  from b c o example_portaled_lookup
    add_portal_self_or_duplicate [OF b example_portaled_execution,
      of example_portaled None]
    add_portal_self_or_duplicate [OF c example_portaled_execution,
      of example_portaled "Some (Callback 9)"]
  show ?thesis by (simp add: Let_def)
qed

subsection \<open>A portal-mode instance without a parent\<close>

text \<open>
  Claim C8. Let a portal-mode instance be constructed while the \<^verbatim>\<open>parent\<close> parameter
  is absent or equal to the own origin. The constructor returns normally; it captures no
  parent origin; besides the usual debug lines and the announcement of the own origin it
  only emits the debug line that the parent is undefined. In every state the instance
  reaches afterwards there is still no parent origin, and a \<^verbatim>\<open>message\<close> event of the
  window, whatever its sender origin, returns normally, changes nothing, and has no
  effect besides debugging: no handler is invoked and nothing is posted to the broadcast
  channel.
\<close>

theorem no_parent_never_authenticates:
  assumes "isPortal ctx"
    and "params_get (location_search env) ''parent'' = None
         \<or> params_get (location_search env) ''parent'' = Some (window_origin env)"
    and "execution env ctx s (t :: 'm event list)"
  shows "let c = constructor env ctx :: 'm result;
             r = perform env ctx s (WindowMessage sender payload :: 'm action) in
      outcome c = Inr ()
    \<and> parentOrigin (post c) = None
    \<and> effects c =
        debug_call ctx ''Channel ID'' (Some [Text (''symbiosome__'' @ location_origin env)])
        @ debug_call ctx ''Parent origin''
            (Some [case params_get (location_search env) ''parent'' of
                     None \<Rightarrow> Null | Some p \<Rightarrow> Text p])
        @ debug_call ctx ''Is portal but parent is undefined'' None
        @ notify (onPortalAdded ctx) (window_origin env)
    \<and> parentOrigin s = None
    \<and> outcome r = Inr ()
    \<and> post r = s
    \<and> external (effects r) = []
    \<and> (\<forall>h orig m. Deliver h orig m \<notin> set (effects r))
    \<and> (\<forall>ch orig m. Publish ch orig m \<notin> set (effects r))"
proof -
  let ?c = "constructor env ctx :: 'm result"
  let ?r = "perform env ctx s (WindowMessage sender payload :: 'm action)"
  have c: "outcome ?c = Inr ()
    \<and> parentOrigin (post ?c) = None
    \<and> effects ?c =
        debug_call ctx ''Channel ID'' (Some [Text (''symbiosome__'' @ location_origin env)])
        @ debug_call ctx ''Parent origin''
            (Some [case params_get (location_search env) ''parent'' of
                     None \<Rightarrow> Null | Some p \<Rightarrow> Text p])
        @ debug_call ctx ''Is portal but parent is undefined'' None
        @ notify (onPortalAdded ctx) (window_origin env)"
    using assms(1,2)
    by (auto simp add: constructor_def outcome_def post_def effects_def Let_def falsy_def)
  have p: "parentOrigin s = None"
    using execution_parentOrigin [OF assms(3)] assms(2) by (auto simp add: falsy_def)
  have m: "outcome ?r = Inr () \<and> post ?r = s"
    using p by (simp add: handlePortalMessage_def outcome_def post_def Let_def)
  have x: "external (effects ?r) = []"
    using p by (simp add: handlePortalMessage_def effects_def Let_def)
  have "\<forall>h orig m. Deliver h orig m \<notin> set (external (effects ?r))"
    unfolding x by simp
  then have d: "\<forall>h orig m. Deliver h orig m \<notin> set (effects ?r)"
    by (simp add: Deliver_in_external)
  have "\<forall>ch orig m. Publish ch orig m \<notin> set (external (effects ?r))"
    unfolding x by simp
  then have b: "\<forall>ch orig m. Publish ch orig m \<notin> set (effects ?r)"
    by (simp add: Publish_in_external)
  from c p m x d b show ?thesis unfolding Let_def by blast
qed

theorem no_parent_never_authenticates_witness:
  "isPortal example_ctx
   \<and> params_get (location_search orphan_env) ''parent'' = None
   \<and> parentOrigin (post (constructor orphan_env example_ctx :: string result)) = None
   \<and> effects (constructor orphan_env example_ctx :: string result)
       = [Debug (Callback 6) ''Channel ID'' (Some [Text ''symbiosome__https://b.example'']),
          Debug (Callback 6) ''Parent origin'' (Some [Null]),
          Debug (Callback 6) ''Is portal but parent is undefined'' None,
          Notify (Callback 1) ''https://b.example'']
   \<and> external (effects (perform orphan_env example_ctx
                 (post (listenToOrigin orphan_env example_ctx
                          (post (constructor orphan_env example_ctx :: string result))
                          ''https://a.example'' (Handler 7) None :: string result))
                 (WindowMessage ''https://a.example'' ''hi''))) = []"
proof -
  let ?s0 = "post (constructor orphan_env example_ctx :: string result)"
  let ?l = "listenToOrigin orphan_env example_ctx ?s0 ''https://a.example'' (Handler 7) None
              :: string result"
  have a: "isPortal example_ctx"
    by (simp add: example_ctx_def)
  have b: "params_get (location_search orphan_env) ''parent'' = None
         \<or> params_get (location_search orphan_env) ''parent''
             = Some (window_origin orphan_env)"
    by (simp add: orphan_env_def params_get_def)
  have e0: "execution orphan_env example_ctx ?s0
              (effects (constructor orphan_env example_ctx :: string result))"
    by (rule execution.constructed
          [where r = "outcome (constructor orphan_env example_ctx :: string result)"])
       (simp add: post_def effects_def outcome_def)
  have e1: "execution orphan_env example_ctx (post ?l)
              (effects (constructor orphan_env example_ctx :: string result) @ effects ?l)"
    by (rule execution.performed
          [OF e0, where a = "ListenToOrigin ''https://a.example'' (Handler 7) None"
             and r = "outcome ?l"])
       (simp add: post_def effects_def outcome_def)
  from a b no_parent_never_authenticates
             [OF a b e1, of "''https://a.example''" "''hi''"]
  show ?thesis
    by (simp add: Let_def orphan_env_def example_ctx_def params_get_def debug_call_def
        notify_def)
qed

subsection \<open>The known origins\<close>

text \<open>
  Claim C7. In every state \<^verbatim>\<open>getOrigins\<close> returns a list without repetition whose
  elements are exactly the origins that are a key of the listener registry or of the
  portal registry. In particular, on a new instance, after \<^verbatim>\<open>addPortal\<close> has
  returned normally for origin \<open>A\<close> and \<^verbatim>\<open>listenToOrigin\<close> for a different origin
  \<open>B\<close>, the result is \<open>{A, B}\<close>; \<^verbatim>\<open>removePortal\<close> of \<open>A\<close> then returns
  normally and the result is \<open>{B}\<close>.
\<close>

theorem getOrigins_is_union:
  "set (getOrigins s) = set (object_keys (listeners s)) \<union> set (object_keys (portals s))
   \<and> distinct (getOrigins s)
   \<and> (constructor env ctx = (r0, s0, t0 :: 'm event list)
       \<and> new_URL env portalURL = Some a \<and> new_URL env listenURL = Some b
       \<and> url_origin a \<noteq> url_origin b
       \<and> addPortal env ctx s0 portalURL onAdded = (Inr (), s1, t1 :: 'm event list)
       \<and> listenToOrigin env ctx s1 listenURL h onListen = (Inr (), s2, t2 :: 'm event list)
       \<longrightarrow> set (getOrigins s2) = {url_origin a, url_origin b}
         \<and> distinct (getOrigins s2)
         \<and> (let r3 = removePortal env ctx s2 (url_origin a) onRemoved :: 'm result in
              outcome r3 = Inr ()
            \<and> set (getOrigins (post r3)) = {url_origin b}
            \<and> distinct (getOrigins (post r3))))"
proof (intro conjI impI)
  show "set (getOrigins s) = set (object_keys (listeners s)) \<union> set (object_keys (portals s))"
    by (rule set_getOrigins)
  show "distinct (getOrigins s)"
    by (rule distinct_getOrigins)
next
  let ?r3 = "removePortal env ctx s2 (url_origin a) onRemoved :: 'm result"
  assume h: "constructor env ctx = (r0, s0, t0)
       \<and> new_URL env portalURL = Some a \<and> new_URL env listenURL = Some b
       \<and> url_origin a \<noteq> url_origin b
       \<and> addPortal env ctx s0 portalURL onAdded = (Inr (), s1, t1)
       \<and> listenToOrigin env ctx s1 listenURL h onListen = (Inr (), s2, t2)"
  from h constructor_registries [of env ctx r0 s0 t0]
  have s0: "listeners s0 = DAList.empty" "portals s0 = DAList.empty"
    by simp_all
  from h addPortal_returns [of env ctx s0 portalURL onAdded s1 t1 a]
  obtain p where a: "url_origin a \<noteq> window_origin env"
    and p1: "portals s1 = DAList.update (url_origin a) p (portals s0)"
    and l1: "listeners s1 = listeners s0"
    by auto
  from h listenToOrigin_returns [of env ctx s1 listenURL h onListen s2 t2 b]
  have l2: "listeners s2 = DAList.update (url_origin b) h (listeners s1)"
    and p2: "portals s2 = portals s1"
    by auto
  have keys2: "set (object_keys (listeners s2)) = {url_origin b}"
      "set (object_keys (portals s2)) = {url_origin a}"
    by (simp_all add: l2 p2 l1 p1 s0 set_object_keys_update object_keys_empty)
  show "set (getOrigins s2) = {url_origin a, url_origin b}"
    unfolding set_getOrigins keys2 by auto
  show "distinct (getOrigins s2)"
    by (rule distinct_getOrigins)
  have "DAList.lookup (portals s2) (url_origin a) = Some p"
    by (simp add: p2 p1)
  from removePortal_returns [OF a this, of ctx onRemoved, where ?'a = 'm]
  have r: "outcome ?r3 = Inr ()"
    and p3: "portals (post ?r3) = DAList.delete (url_origin a) (portals s2)"
    and l3: "listeners (post ?r3) = listeners s2"
    by (simp_all add: outcome_def post_def)
  have keys3: "set (object_keys (listeners (post ?r3))) = {url_origin b}"
      "set (object_keys (portals (post ?r3))) = {}"
    by (simp_all add: l3 p3 keys2 set_object_keys_delete)
  have "set (getOrigins (post ?r3)) = {url_origin b}"
    unfolding set_getOrigins keys3 by simp
  with r distinct_getOrigins [of "post ?r3"]
  show "let r3 = ?r3 in
              outcome r3 = Inr ()
            \<and> set (getOrigins (post r3)) = {url_origin b}
            \<and> distinct (getOrigins (post r3))"
    by (simp add: Let_def)
qed


theorem getOrigins_is_union_witness:
  "set (getOrigins (post (listenToOrigin example_env example_ctx example_portaled
                            ''https://a.example'' (Handler 7) None :: string result)))
     = {''https://c.example'', ''https://a.example''}
   \<and> set (getOrigins (post (removePortal example_env example_ctx
             (post (listenToOrigin example_env example_ctx example_portaled
                      ''https://a.example'' (Handler 7) None :: string result))
             ''https://c.example'' None :: string result)))
     = {''https://a.example''}"
proof -
  let ?c = "constructor example_env example_ctx :: string result"
  let ?p = "addPortal example_env example_ctx example_new ''https://c.example/portal?v=1'' None
              :: string result"
  let ?l = "listenToOrigin example_env example_ctx example_portaled ''https://a.example''
              (Handler 7) None :: string result"
  have c: "?c = (outcome ?c, example_new, effects ?c)"
    using result_eq [of ?c] by (simp add: example_new_def)
  have p: "?p = (Inr (), example_portaled, effects ?p)"
    using result_eq [of ?p] by (simp add: example_portaled_def example_portaled_outcome)
  have l: "?l = (Inr (), post ?l, effects ?l)"
    using result_eq [of ?l] by (simp add: example_both_outcome)
  have a: "new_URL example_env ''https://c.example/portal?v=1''
      = Some \<lparr> url_origin = ''https://c.example'', url_base = ''https://c.example/portal'',
               searchParams = [(''v'', ''1'')] \<rparr>"
    by (simp add: example_env_def example_URL_def)
  have b: "new_URL example_env ''https://a.example''
      = Some \<lparr> url_origin = ''https://a.example'', url_base = ''https://a.example/'',
               searchParams = [] \<rparr>"
    by (simp add: example_env_def example_URL_def)
  from getOrigins_is_union
         [of example_new example_env example_ctx "outcome ?c" example_new "effects ?c"
             "''https://c.example/portal?v=1''"
             "\<lparr> url_origin = ''https://c.example'', url_base = ''https://c.example/portal'',
                searchParams = [(''v'', ''1'')] \<rparr>"
             "''https://a.example''"
             "\<lparr> url_origin = ''https://a.example'', url_base = ''https://a.example/'',
                searchParams = [] \<rparr>"
             None example_portaled "effects ?p" "Handler 7" None "post ?l" "effects ?l" None]
       c p l a b
  show ?thesis by (simp add: Let_def)
qed

subsection \<open>The life cycle of a portal\<close>

text \<open>
  Claim C6, as amended. Let \<open>O\<close> be a canonical origin (the \<^verbatim>\<open>URL\<close> constructor
  accepts it and gives it back as the origin) other than the own origin, let no portal
  be registered for \<open>O\<close>, and let the platform hand out the content window of every
  iframe named \<open>O\<close>. Then \<^verbatim>\<open>addPortal(O)\<close>, \<^verbatim>\<open>removePortal(O)\<close>,
  \<^verbatim>\<open>addPortal(O)\<close> all return normally. After the first call a portal is registered
  for \<open>O\<close> and its iframe is in the document; after the removal no portal is
  registered for \<open>O\<close> and that iframe is no longer in the document; after the last call
  a portal is registered for \<open>O\<close> again and the added callback has been invoked.
\<close>

theorem portal_round_trip:
  assumes "orig \<noteq> window_origin env"
    and "new_URL env orig = Some u" and "url_origin u = orig"
    and "DAList.lookup (portals s) orig = None"
    and "\<And>f. frame_name f = orig \<Longrightarrow> contentWindow env f \<noteq> None"
  shows "let r1 = addPortal env ctx s orig onAdded :: 'm result;
             r2 = removePortal env ctx (post r1) orig onRemoved :: 'm result;
             r3 = addPortal env ctx (post r2) orig onAdded' :: 'm result in
      outcome r1 = Inr ()
    \<and> (\<exists>p. DAList.lookup (portals (post r1)) orig = Some p
           \<and> frame p \<in> frame_id ` set (document_body (post r1))
           \<and> frame p \<notin> frame_id ` set (document_body (post r2)))
    \<and> outcome r2 = Inr ()
    \<and> DAList.lookup (portals (post r2)) orig = None
    \<and> effects r2 = notify (coalesce onRemoved (onPortalRemoved ctx)) orig
    \<and> outcome r3 = Inr ()
    \<and> DAList.lookup (portals (post r3)) orig \<noteq> None
    \<and> effects r3 = notify (coalesce onAdded' (onPortalAdded ctx)) orig"
proof -
  have add: "\<And>(s' :: state) cb. DAList.lookup (portals s') orig = None \<Longrightarrow>
      \<exists>w. contentWindow env
             \<lparr> frame_id = frames_created s', frame_name = orig, frame_width = ''1'',
               frame_height = ''1'', style_visibility = ''hidden'',
               style_position = ''absolute'',
               frame_src = Some (u\<lparr> searchParams :=
                  params_set (searchParams u) ''parent'' (window_origin env) \<rparr>) \<rparr> = Some w
        \<and> (addPortal env ctx s' orig cb :: 'm result)
          = (Inr (),
             s'\<lparr> document_body :=
                    set_src (frames_created s')
                      (u\<lparr> searchParams :=
                           params_set (searchParams u) ''parent'' (window_origin env) \<rparr>)
                      (document_body s' @
                       [\<lparr> frame_id = frames_created s', frame_name = orig,
                          frame_width = ''1'', frame_height = ''1'',
                          style_visibility = ''hidden'', style_position = ''absolute'',
                          frame_src = None \<rparr>]),
                 frames_created := Suc (frames_created s'),
                 portals := DAList.update orig \<lparr> frame = frames_created s', window = w \<rparr>
                              (portals s') \<rparr>,
             notify (coalesce cb (onPortalAdded ctx)) orig)"
  proof -
    fix s' :: state and cb
    assume n: "DAList.lookup (portals s') orig = None"
    let ?f = "\<lparr> frame_id = frames_created s', frame_name = orig, frame_width = ''1'',
               frame_height = ''1'', style_visibility = ''hidden'',
               style_position = ''absolute'',
               frame_src = Some (u\<lparr> searchParams :=
                  params_set (searchParams u) ''parent'' (window_origin env) \<rparr>) \<rparr>"
    from assms(5) [of ?f] obtain w where w: "contentWindow env ?f = Some w"
      by auto
    show "\<exists>w. contentWindow env ?f = Some w
        \<and> (addPortal env ctx s' orig cb :: 'm result)
          = (Inr (),
             s'\<lparr> document_body :=
                    set_src (frames_created s')
                      (u\<lparr> searchParams :=
                           params_set (searchParams u) ''parent'' (window_origin env) \<rparr>)
                      (document_body s' @
                       [\<lparr> frame_id = frames_created s', frame_name = orig,
                          frame_width = ''1'', frame_height = ''1'',
                          style_visibility = ''hidden'', style_position = ''absolute'',
                          frame_src = None \<rparr>]),
                 frames_created := Suc (frames_created s'),
                 portals := DAList.update orig \<lparr> frame = frames_created s', window = w \<rparr>
                              (portals s') \<rparr>,
             notify (coalesce cb (onPortalAdded ctx)) orig)"
      using assms(1,2,3) n w
      by (auto simp add: addPortal_def createFrame_def Let_def)
  qed
  let ?r1 = "addPortal env ctx s orig onAdded :: 'm result"
  let ?r2 = "removePortal env ctx (post ?r1) orig onRemoved :: 'm result"
  let ?r3 = "addPortal env ctx (post ?r2) orig onAdded' :: 'm result"
  from add [OF assms(4), of onAdded] obtain w where
    r1: "?r1 = (Inr (),
             s\<lparr> document_body :=
                    set_src (frames_created s)
                      (u\<lparr> searchParams :=
                           params_set (searchParams u) ''parent'' (window_origin env) \<rparr>)
                      (document_body s @
                       [\<lparr> frame_id = frames_created s, frame_name = orig,
                          frame_width = ''1'', frame_height = ''1'',
                          style_visibility = ''hidden'', style_position = ''absolute'',
                          frame_src = None \<rparr>]),
                 frames_created := Suc (frames_created s),
                 portals := DAList.update orig \<lparr> frame = frames_created s, window = w \<rparr>
                              (portals s) \<rparr>,
             notify (coalesce onAdded (onPortalAdded ctx)) orig)"
    by blast
  have o1: "outcome ?r1 = Inr ()"
    by (simp add: r1 outcome_def)
  have l1: "DAList.lookup (portals (post ?r1)) orig
              = Some \<lparr> frame = frames_created s, window = w \<rparr>"
    by (simp add: r1 post_def)
  have d1: "frames_created s \<in> frame_id ` set (document_body (post ?r1))"
    by (simp add: r1 post_def set_src_def image_iff)
  from removePortal_returns [OF assms(1) l1, of ctx onRemoved, where ?'a = 'm]
  have r2: "?r2 = (Inr (),
       (post ?r1)\<lparr> document_body := frame_remove (frames_created s) (document_body (post ?r1)),
          portals := DAList.delete orig (portals (post ?r1)) \<rparr>,
       notify (coalesce onRemoved (onPortalRemoved ctx)) orig)"
    by simp
  have o2: "outcome ?r2 = Inr ()"
    and e2: "effects ?r2 = notify (coalesce onRemoved (onPortalRemoved ctx)) orig"
    and l2: "DAList.lookup (portals (post ?r2)) orig = None"
    and d2: "frames_created s \<notin> frame_id ` set (document_body (post ?r2))"
    unfolding r2 by (auto simp add: outcome_def effects_def post_def frame_remove_def)
  from add [OF l2, of onAdded'] obtain w' where
    r3: "?r3 = (Inr (),
             (post ?r2)\<lparr> document_body :=
                    set_src (frames_created (post ?r2))
                      (u\<lparr> searchParams :=
                           params_set (searchParams u) ''parent'' (window_origin env) \<rparr>)
                      (document_body (post ?r2) @
                       [\<lparr> frame_id = frames_created (post ?r2), frame_name = orig,
                          frame_width = ''1'', frame_height = ''1'',
                          style_visibility = ''hidden'', style_position = ''absolute'',
                          frame_src = None \<rparr>]),
                 frames_created := Suc (frames_created (post ?r2)),
                 portals := DAList.update orig
                              \<lparr> frame = frames_created (post ?r2), window = w' \<rparr>
                              (portals (post ?r2)) \<rparr>,
             notify (coalesce onAdded' (onPortalAdded ctx)) orig)"
    by blast
  have o3: "outcome ?r3 = Inr ()"
    and e3: "effects ?r3 = notify (coalesce onAdded' (onPortalAdded ctx)) orig"
    and l3: "DAList.lookup (portals (post ?r3)) orig \<noteq> None"
    unfolding r3 by (simp_all add: outcome_def effects_def post_def)
  from o1 l1 d1 d2 o2 l2 e2 o3 l3 e3 show ?thesis
    unfolding Let_def by simp
qed


theorem portal_round_trip_witness:
  "''https://c.example'' \<noteq> window_origin example_env
   \<and> DAList.lookup (portals example_new) ''https://c.example'' = None
   \<and> outcome (addPortal example_env example_ctx example_new ''https://c.example'' None
                :: string result) = Inr ()
   \<and> outcome (removePortal example_env example_ctx
                (post (addPortal example_env example_ctx example_new ''https://c.example'' None
                         :: string result))
                ''https://c.example'' None :: string result) = Inr ()
   \<and> outcome (addPortal example_env example_ctx
                (post (removePortal example_env example_ctx
                   (post (addPortal example_env example_ctx example_new ''https://c.example''
                            None :: string result))
                   ''https://c.example'' None :: string result))
                ''https://c.example'' None :: string result) = Inr ()"
proof -
  have a: "''https://c.example'' \<noteq> window_origin example_env"
    by (simp add: example_env_def)
  have b: "new_URL example_env ''https://c.example''
      = Some \<lparr> url_origin = ''https://c.example'', url_base = ''https://c.example/'',
               searchParams = [] \<rparr>"
    by (simp add: example_env_def example_URL_def)
  have c: "url_origin \<lparr> url_origin = ''https://c.example'', url_base = ''https://c.example/'',
               searchParams = [] \<rparr> = ''https://c.example''"
    by simp
  have d: "DAList.lookup (portals example_new) ''https://c.example'' = None"
    by (simp add: example_new_eq)
  have e: "\<And>f. frame_name f = ''https://c.example'' \<Longrightarrow> contentWindow example_env f \<noteq> None"
    by (simp add: example_env_def)
  from a d portal_round_trip [where ?'m = string, OF a b c d e, of example_ctx None None None]
  show ?thesis by (simp add: Let_def)
qed

text \<open>
  Claim C6 as it is stated does not hold: where the platform gives no content window for
  the new iframe, the first \<^verbatim>\<open>addPortal\<close> of a new instance already throws, for an
  origin that is not the own origin.
\<close>

theorem portal_round_trip_counterexample:
  "''https://c.example'' \<noteq> window_origin detached_env
   \<and> map_option url_origin (new_URL detached_env ''https://c.example'')
       = Some ''https://c.example''
   \<and> DAList.lookup
         (portals (post (constructor detached_env example_ctx :: string result)))
         ''https://c.example'' = None
   \<and> outcome (addPortal detached_env example_ctx
                (post (constructor detached_env example_ctx :: string result))
                ''https://c.example'' None :: string result)
       = Inl (NoReference ''https://c.example'')
   \<and> kind (NoReference ''https://c.example'') = TransportUnavailable"
  by (simp add: addPortal_def createFrame_def constructor_def outcome_def post_def
      detached_env_def example_URL_def Let_def)

end
